theory Spec2Isabelle
  imports Complex_Main
begin

section \<open>Python values and built-ins used by api.py\<close>

text \<open>
  The module is Python 2 code (it uses \<^verbatim>\<open>basestring\<close>, \<^verbatim>\<open>dict.iteritems\<close> and
  \<^verbatim>\<open>logging.warn\<close>), so the built-ins are modelled with their Python 2 meaning.
  Exceptions are values of \<open>error\<close>; a \<^verbatim>\<open>KeyError\<close> carries the key that was
  looked up, as the Python exception does.
\<close>

datatype pykey = KNone | KInt int | KStr string

datatype error =
    ValueError
  | TypeError
  | IndexError
  | KeyError pykey
  | ZeroDivisionError
  | OverflowError
  | AttributeError

text \<open>Python's exception hierarchy: \<^verbatim>\<open>KeyError\<close> and \<^verbatim>\<open>IndexError\<close> derive from
  \<^verbatim>\<open>LookupError\<close>.\<close>

fun is_LookupError :: "error \<Rightarrow> bool" where
  "is_LookupError (KeyError k) = True"
| "is_LookupError IndexError = True"
| "is_LookupError e = False"

text \<open>
  Python floats are not interpreted: their arithmetic is a parameter of every function
  that computes with them, so that nothing proved below depends on how a float operation
  rounds. \<open>float_of_str\<close> is \<^verbatim>\<open>float(s)\<close> on a string (\<open>None\<close> when it raises
  \<^verbatim>\<open>ValueError\<close>), \<open>float_of_int\<close> is the conversion of an integer to a float
  (\<open>None\<close> when the integer is beyond the float range and Python raises
  \<^verbatim>\<open>OverflowError\<close>), \<open>float_is_zero x\<close> is \<^verbatim>\<open>x == 0.0\<close>, and \<open>fdiv\<close> is only
  applied to a divisor that is not zero (Python raises \<^verbatim>\<open>ZeroDivisionError\<close>
  otherwise, which the callers model).
\<close>

record 'f pyfloat =
  float_of_str :: "string \<Rightarrow> 'f option"
  float_of_int :: "int \<Rightarrow> 'f option"
  float_is_zero :: "'f \<Rightarrow> bool"
  fadd :: "'f \<Rightarrow> 'f \<Rightarrow> 'f"
  fdiv :: "'f \<Rightarrow> 'f \<Rightarrow> 'f"
  fmul :: "'f \<Rightarrow> 'f \<Rightarrow> 'f"

text \<open>The values a field of a catalog record (decoded JSON) or a price can hold.\<close>

datatype 'f pyval = PNone | PBool bool | PInt int | PFloat 'f | PStr string

text \<open>Truth value of an object, as \<^verbatim>\<open>not x\<close> tests it.\<close>

fun truthy :: "'f pyfloat \<Rightarrow> 'f pyval \<Rightarrow> bool" where
  "truthy ops PNone = False"
| "truthy ops (PBool b) = b"
| "truthy ops (PInt i) = (i \<noteq> 0)"
| "truthy ops (PFloat x) = (\<not> float_is_zero ops x)"
| "truthy ops (PStr s) = (s \<noteq> [])"

subsection \<open>Strings\<close>

text \<open>\<^verbatim>\<open>s.startswith(p)\<close>\<close>

fun startswith :: "string \<Rightarrow> string \<Rightarrow> bool" where
  "startswith s [] = True"
| "startswith [] (p # ps) = False"
| "startswith (c # cs) (p # ps) = (c = p \<and> startswith cs ps)"

text \<open>The whitespace of \<^verbatim>\<open>str.split()\<close> and \<^verbatim>\<open>str.rstrip()\<close>: space, tab, newline,
  vertical tab, form feed, carriage return.\<close>

definition is_space :: "char \<Rightarrow> bool" where
  "is_space c = (c = CHR '' '' \<or> c = CHR 0x09 \<or> c = CHR 0x0A \<or> c = CHR 0x0B
                 \<or> c = CHR 0x0C \<or> c = CHR 0x0D)"

text \<open>\<^verbatim>\<open>s.rstrip()\<close>\<close>

definition rstrip :: "string \<Rightarrow> string" where
  "rstrip s = rev (dropWhile is_space (rev s))"

text \<open>\<^verbatim>\<open>s.split()\<close>: the maximal runs of non-whitespace characters. \<open>cur\<close> is the
  run being read.\<close>

fun split_acc :: "string \<Rightarrow> string \<Rightarrow> string list" where
  "split_acc cur [] = (if cur = [] then [] else [cur])"
| "split_acc cur (c # cs) =
     (if is_space c then (if cur = [] then split_acc [] cs else cur # split_acc [] cs)
      else split_acc (cur @ [c]) cs)"

definition split_ws :: "string \<Rightarrow> string list" where
  "split_ws s = split_acc [] s"

text \<open>\<^verbatim>\<open>s.split(sep)\<close> for a one-character separator: never empty.\<close>

fun split_sep_acc :: "char \<Rightarrow> string \<Rightarrow> string \<Rightarrow> string list" where
  "split_sep_acc sep cur [] = [cur]"
| "split_sep_acc sep cur (c # cs) =
     (if c = sep then cur # split_sep_acc sep [] cs else split_sep_acc sep (cur @ [c]) cs)"

definition split_sep :: "char \<Rightarrow> string \<Rightarrow> string list" where
  "split_sep sep s = split_sep_acc sep [] s"

text \<open>\<^verbatim>\<open>xs[i]\<close> for \<open>i \<ge> 0\<close>: \<^verbatim>\<open>IndexError\<close> out of range.\<close>

definition item :: "'a list \<Rightarrow> nat \<Rightarrow> error + 'a" where
  "item xs i = (if i < length xs then Inr (xs ! i) else Inl IndexError)"

text \<open>\<^verbatim>\<open>s.strip()\<close>, which \<^verbatim>\<open>int\<close> applies to its argument.\<close>

definition strip :: "string \<Rightarrow> string" where
  "strip s = dropWhile is_space (rstrip s)"

text \<open>
  \<^verbatim>\<open>int(s)\<close> on a string in base 10: a number with an optional sign and at least one
  decimal digit (the characters with codes 48 to 57), possibly surrounded by whitespace;
  anything else raises \<^verbatim>\<open>ValueError\<close>.
\<close>

definition digit_val :: "char \<Rightarrow> nat option" where
  "digit_val c =
     (let code = (of_char c :: nat)
      in if 48 \<le> code \<and> code \<le> 57 then Some (code - 48) else None)"

fun digits_acc :: "nat \<Rightarrow> string \<Rightarrow> nat option" where
  "digits_acc n [] = Some n"
| "digits_acc n (c # cs) =
     (case digit_val c of None \<Rightarrow> None | Some d \<Rightarrow> digits_acc (10 * n + d) cs)"

definition digits :: "string \<Rightarrow> nat option" where
  "digits s = (if s = [] then None else digits_acc 0 s)"

definition py_int :: "string \<Rightarrow> error + int" where
  "py_int s =
     (case strip s of
        [] \<Rightarrow> Inl ValueError
      | c # cs \<Rightarrow>
          if c = CHR ''-'' then
            (case digits cs of None \<Rightarrow> Inl ValueError | Some n \<Rightarrow> Inr (- int n))
          else if c = CHR ''+'' then
            (case digits cs of None \<Rightarrow> Inl ValueError | Some n \<Rightarrow> Inr (int n))
          else
            (case digits (c # cs) of None \<Rightarrow> Inl ValueError | Some n \<Rightarrow> Inr (int n)))"

text \<open>The conversion of an integer to a float, which raises \<^verbatim>\<open>OverflowError\<close> on
  an integer too large for a float.\<close>

definition int_to_float :: "'f pyfloat \<Rightarrow> int \<Rightarrow> error + 'f" where
  "int_to_float ops i =
     (case float_of_int ops i of None \<Rightarrow> Inl OverflowError | Some x \<Rightarrow> Inr x)"

text \<open>\<^verbatim>\<open>float(x)\<close> on an object.\<close>

fun py_float :: "'f pyfloat \<Rightarrow> 'f pyval \<Rightarrow> error + 'f" where
  "py_float ops PNone = Inl TypeError"
| "py_float ops (PBool b) = int_to_float ops (if b then 1 else 0)"
| "py_float ops (PInt i) = int_to_float ops i"
| "py_float ops (PFloat x) = Inr x"
| "py_float ops (PStr s) =
     (case float_of_str ops s of None \<Rightarrow> Inl ValueError | Some x \<Rightarrow> Inr x)"

text \<open>\<^verbatim>\<open>sum(xs) / len(xs)\<close> on a list of floats: \<^verbatim>\<open>sum\<close> starts from the integer 0,
  which the first addition converts to a float, the length is converted for the
  division, and dividing by the length 0 raises.\<close>

definition average :: "'f pyfloat \<Rightarrow> 'f list \<Rightarrow> error + 'f" where
  "average ops xs =
     (if xs = [] then Inl ZeroDivisionError
      else
        (case int_to_float ops 0 of
           Inl e \<Rightarrow> Inl e
         | Inr zero \<Rightarrow>
            (case int_to_float ops (int (length xs)) of
               Inl e \<Rightarrow> Inl e
             | Inr n \<Rightarrow> Inr (fdiv ops (foldl (fadd ops) zero xs) n))))"

section \<open>CPIData\<close>

text \<open>The object state: the dictionary \<^verbatim>\<open>year_cpi\<close> and the two bounds, \<open>None\<close>
  until a line has been read.\<close>

record 'f cpidata =
  year_cpi :: "int \<rightharpoonup> 'f"
  last_year :: "int option"
  first_year :: "int option"

text \<open>\<^verbatim>\<open>CPIData.__init__\<close>\<close>

definition cpi_init :: "'f cpidata" where
  "cpi_init = \<lparr>year_cpi = Map.empty, last_year = None, first_year = None\<rparr>"

subsection \<open>load_from_file\<close>

text \<open>
  The inner loop \<^verbatim>\<open>while not line.startswith("DATE "): pass\<close>. Its body changes
  nothing, so it either falls through at once or never ends; \<open>None\<close> is the run that
  never ends.
\<close>

partial_function (option) while_not_header :: "string \<Rightarrow> unit option" where
  "while_not_header line =
     (if \<not> startswith line ''DATE '' then while_not_header line else Some ())"

text \<open>
  The rest of the body of \<^verbatim>\<open>for line in fp\<close>, in two parts. \<open>parse_line\<close> is
  the three statements that read the year and the value off the line; they touch no
  attribute of the object.
\<close>

definition parse_line :: "'f pyfloat \<Rightarrow> string \<Rightarrow> error + (int \<times> 'f)" where
  "parse_line ops line =
     (let data = split_ws (rstrip line) in
      (case item data 0 of
         Inl e \<Rightarrow> Inl e
       | Inr d0 \<Rightarrow>
          (case item (split_sep CHR ''-'' d0) 0 of
             Inl e \<Rightarrow> Inl e
           | Inr y \<Rightarrow>
              (case py_int y of
                 Inl e \<Rightarrow> Inl e
               | Inr year \<Rightarrow>
                  (case item data 1 of
                     Inl e \<Rightarrow> Inl e
                   | Inr d1 \<Rightarrow>
                      (case float_of_str ops d1 of
                         None \<Rightarrow> Inl ValueError
                       | Some cpi \<Rightarrow> Inr (year, cpi)))))))"

text \<open>
  \<open>accumulate\<close> is the remainder: the bounds are set, and when the year changes the
  average of the year that ends is stored. The loop carries the object, the local
  \<^verbatim>\<open>current_year\<close> and the local list \<^verbatim>\<open>year_cpi\<close>. An exception leaves the
  object as it is at the raise, so \<open>Inl\<close> holds the error and the object.
\<close>

type_synonym 'f loop_state = "'f cpidata \<times> int option \<times> 'f list"

fun accumulate ::
  "'f pyfloat \<Rightarrow> 'f loop_state \<Rightarrow> int \<Rightarrow> 'f \<Rightarrow> (error \<times> 'f cpidata) + 'f loop_state" where
  "accumulate ops (self, current_year, cpis) year cpi =
     (let self1 = (if first_year self = None then self\<lparr>first_year := Some year\<rparr> else self);
          self2 = self1\<lparr>last_year := Some year\<rparr>
      in
      if current_year \<noteq> Some year then
        (case current_year of
           None \<Rightarrow> Inr (self2, Some year, [cpi])
         | Some cy \<Rightarrow>
             (case average ops cpis of
                Inl e \<Rightarrow> Inl (e, self2)
              | Inr avg \<Rightarrow>
                  Inr (self2\<lparr>year_cpi := (year_cpi self2)(cy \<mapsto> avg)\<rparr>, Some year, [cpi])))
      else Inr (self2, current_year, cpis @ [cpi]))"

fun process_line ::
  "'f pyfloat \<Rightarrow> 'f loop_state \<Rightarrow> string \<Rightarrow> (error \<times> 'f cpidata) + 'f loop_state" where
  "process_line ops (self, current_year, cpis) line =
     (case parse_line ops line of
        Inl e \<Rightarrow> Inl (e, self)
      | Inr (year, cpi) \<Rightarrow> accumulate ops (self, current_year, cpis) year cpi)"

fun load_loop ::
  "'f pyfloat \<Rightarrow> 'f loop_state \<Rightarrow> string list
     \<Rightarrow> ((error \<times> 'f cpidata) + 'f loop_state) option" where
  "load_loop ops st [] = Some (Inr st)"
| "load_loop ops st (line # fp) =
     (case while_not_header line of
        None \<Rightarrow> None
      | Some u \<Rightarrow>
          (case process_line ops st line of
             Inl e \<Rightarrow> Some (Inl e)
           | Inr st' \<Rightarrow> load_loop ops st' fp))"

text \<open>The statement after the loop: the average of the last year, unless that year is
  already a key of the dictionary.\<close>

fun finish_last_year ::
  "'f pyfloat \<Rightarrow> 'f loop_state \<Rightarrow> (error \<times> 'f cpidata) + 'f cpidata" where
  "finish_last_year ops (self, None, cpis) = Inr self"
| "finish_last_year ops (self, Some cy, cpis) =
     (if year_cpi self cy = None then
        (case average ops cpis of
           Inl e \<Rightarrow> Inl (e, self)
         | Inr avg \<Rightarrow> Inr (self\<lparr>year_cpi := (year_cpi self)(cy \<mapsto> avg)\<rparr>))
      else Inr self)"

text \<open>
  \<^verbatim>\<open>CPIData.load_from_file\<close>, on the lines the file object yields. The result is
  \<open>None\<close> when the call never returns, \<open>Some (Inl (e, self))\<close> when it raises \<open>e\<close>
  leaving the object as \<open>self\<close>, and \<open>Some (Inr self)\<close> when it returns.
\<close>

definition load_from_file ::
  "'f pyfloat \<Rightarrow> 'f cpidata \<Rightarrow> string list \<Rightarrow> ((error \<times> 'f cpidata) + 'f cpidata) option" where
  "load_from_file ops self fp =
     (case load_loop ops (self, None, []) fp of
        None \<Rightarrow> None
      | Some (Inl e) \<Rightarrow> Some (Inl e)
      | Some (Inr st) \<Rightarrow> Some (finish_last_year ops st))"

subsection \<open>get_adjusted_price\<close>

text \<open>The first statement: the target year is 2013 when it is not given or lies after
  2013.\<close>

definition clamp_current_year :: "int option \<Rightarrow> int" where
  "clamp_current_year current_year =
     (case current_year of
        None \<Rightarrow> 2013
      | Some c \<Rightarrow> if c > 2013 then 2013 else c)"

text \<open>
  \<^verbatim>\<open>year < self.first_year\<close> and \<^verbatim>\<open>year > self.last_year\<close>. A bound may still be
  \<^verbatim>\<open>None\<close>; Python 2 orders \<^verbatim>\<open>None\<close> below every integer.
\<close>

fun lt_bound :: "int \<Rightarrow> int option \<Rightarrow> bool" where
  "lt_bound year None = False"
| "lt_bound year (Some b) = (year < b)"

fun gt_bound :: "int \<Rightarrow> int option \<Rightarrow> bool" where
  "gt_bound year None = True"
| "gt_bound year (Some b) = (year > b)"

text \<open>The \<^verbatim>\<open>if\<close>/\<^verbatim>\<open>elif\<close> on the source year. Its result is the new value of the
  local \<^verbatim>\<open>year\<close>, which is \<^verbatim>\<open>None\<close> when the bound it is replaced with is.\<close>

definition clamp_year :: "'f cpidata \<Rightarrow> int \<Rightarrow> int option" where
  "clamp_year self year =
     (if lt_bound year (first_year self) then first_year self
      else if gt_bound year (last_year self) then last_year self
      else Some year)"

text \<open>\<^verbatim>\<open>self.year_cpi[k]\<close>: the keys of the dictionary are integers, so the key
  \<^verbatim>\<open>None\<close> is never found.\<close>

fun cpi_getitem :: "'f cpidata \<Rightarrow> int option \<Rightarrow> error + 'f" where
  "cpi_getitem self None = Inl (KeyError KNone)"
| "cpi_getitem self (Some k) =
     (case year_cpi self k of None \<Rightarrow> Inl (KeyError (KInt k)) | Some c \<Rightarrow> Inr c)"

text \<open>\<^verbatim>\<open>CPIData.get_adjusted_price(price, year, current_year=None)\<close>: the two lookups come
  first, then \<^verbatim>\<open>float(price) / year_cpi * current_cpi\<close>.\<close>

definition get_adjusted_price ::
  "'f pyfloat \<Rightarrow> 'f cpidata \<Rightarrow> 'f pyval \<Rightarrow> int \<Rightarrow> int option \<Rightarrow> error + 'f" where
  "get_adjusted_price ops self price year current_year =
     (let current_year' = clamp_current_year current_year;
          year' = clamp_year self year
      in
      (case cpi_getitem self year' of
         Inl e \<Rightarrow> Inl e
       | Inr cpi_of_year \<Rightarrow>
          (case cpi_getitem self (Some current_year') of
             Inl e \<Rightarrow> Inl e
           | Inr current_cpi \<Rightarrow>
              (case py_float ops price of
                 Inl e \<Rightarrow> Inl e
               | Inr p \<Rightarrow>
                  if float_is_zero ops cpi_of_year then Inl ZeroDivisionError
                  else Inr (fmul ops (fdiv ops p cpi_of_year) current_cpi)))))"

section \<open>Catalog records\<close>

text \<open>A platform is a dictionary from field names to values.\<close>

type_synonym 'f platform = "string \<rightharpoonup> 'f pyval"

text \<open>\<^verbatim>\<open>platform[k]\<close>\<close>

definition getitem :: "'f platform \<Rightarrow> string \<Rightarrow> error + 'f pyval" where
  "getitem platform k =
     (case platform k of None \<Rightarrow> Inl (KeyError (KStr k)) | Some v \<Rightarrow> Inr v)"

text \<open>\<^verbatim>\<open>k not in platform or not platform[k]\<close>\<close>

definition lacks :: "'f pyfloat \<Rightarrow> 'f platform \<Rightarrow> string \<Rightarrow> bool" where
  "lacks ops platform k =
     (case platform k of None \<Rightarrow> True | Some v \<Rightarrow> \<not> truthy ops v)"

text \<open>The messages given to \<^verbatim>\<open>logging.warn\<close>. Three of them are formatted with the
  value of \<^verbatim>\<open>platform['name']\<close>, which the constructor keeps.\<close>

datatype 'f warning =
    Has_no_release_date "'f pyval"
  | Has_no_original_price "'f pyval"
  | No_platform_name
  | Has_no_abbreviation "'f pyval"

text \<open>A warning whose message needs \<^verbatim>\<open>platform['name']\<close>, followed by
  \<^verbatim>\<open>return False\<close>: reading the name raises when the record has none.\<close>

definition warn_named ::
  "'f platform \<Rightarrow> ('f pyval \<Rightarrow> 'f warning) \<Rightarrow> error + (bool \<times> 'f warning list)" where
  "warn_named platform msg =
     (case getitem platform ''name'' of
        Inl e \<Rightarrow> Inl e
      | Inr n \<Rightarrow> Inr (False, [msg n]))"

text \<open>\<^verbatim>\<open>is_valid_dataset(platform)\<close>: the value returned and the warnings logged, or the
  exception raised.\<close>

definition is_valid_dataset ::
  "'f pyfloat \<Rightarrow> 'f platform \<Rightarrow> error + (bool \<times> 'f warning list)" where
  "is_valid_dataset ops platform =
     (if lacks ops platform ''release_date'' then warn_named platform Has_no_release_date
      else if lacks ops platform ''original_price'' then
        warn_named platform Has_no_original_price
      else if lacks ops platform ''name'' then Inr (False, [No_platform_name])
      else if lacks ops platform ''abbreviation'' then
        warn_named platform Has_no_abbreviation
      else Inr (True, []))"

section \<open>The loop of main\<close>

text \<open>\<^verbatim>\<open>int(platform['release_date'].split('-')[0])\<close>: only a string has
  \<^verbatim>\<open>split\<close>.\<close>

definition release_year :: "'f platform \<Rightarrow> error + int" where
  "release_year platform =
     (case getitem platform ''release_date'' of
        Inl e \<Rightarrow> Inl e
      | Inr v \<Rightarrow>
         (case v of
            PStr d \<Rightarrow>
              (case item (split_sep CHR ''-'' d) 0 of
                 Inl e \<Rightarrow> Inl e
               | Inr y \<Rightarrow> py_int y)
          | _ \<Rightarrow> Inl AttributeError))"

text \<open>The statements between the validity test and \<^verbatim>\<open>platforms.append\<close>: the record
  gains \<^verbatim>\<open>year\<close> and \<^verbatim>\<open>adjusted_price\<close>. The target year is not passed.\<close>

definition adjust_platform ::
  "'f pyfloat \<Rightarrow> 'f cpidata \<Rightarrow> 'f platform \<Rightarrow> error + 'f platform" where
  "adjust_platform ops cpi_data platform =
     (case release_year platform of
        Inl e \<Rightarrow> Inl e
      | Inr year \<Rightarrow>
         (case getitem platform ''original_price'' of
            Inl e \<Rightarrow> Inl e
          | Inr price \<Rightarrow>
             (case get_adjusted_price ops cpi_data price year None of
                Inl e \<Rightarrow> Inl e
              | Inr adjusted_price \<Rightarrow>
                 Inr (platform(''year'' \<mapsto> PInt year,
                               ''original_price'' \<mapsto> price,
                               ''adjusted_price'' \<mapsto> PFloat adjusted_price)))))"

text \<open>
  The \<^verbatim>\<open>for platform in gb_api.get_platforms(...)\<close> loop of \<^verbatim>\<open>main\<close>, on the
  records the generator yields, with \<^verbatim>\<open>opts.limit\<close>, the list \<^verbatim>\<open>platforms\<close> and
  \<^verbatim>\<open>counter\<close>. The result is the list at the end of the loop, or the exception that
  ends \<^verbatim>\<open>main\<close>. The warnings of \<open>is_valid_dataset\<close> are not kept here.
\<close>

fun main_loop ::
  "'f pyfloat \<Rightarrow> 'f cpidata \<Rightarrow> int option \<Rightarrow> 'f platform list \<Rightarrow> 'f platform list \<Rightarrow> int
     \<Rightarrow> error + 'f platform list" where
  "main_loop ops cpi_data limit [] platforms counter = Inr platforms"
| "main_loop ops cpi_data limit (platform # incoming) platforms counter =
     (case is_valid_dataset ops platform of
        Inl e \<Rightarrow> Inl e
      | Inr (valid, warnings) \<Rightarrow>
         if \<not> valid then main_loop ops cpi_data limit incoming platforms counter
         else
           (case adjust_platform ops cpi_data platform of
              Inl e \<Rightarrow> Inl e
            | Inr platform' \<Rightarrow>
               if (case limit of None \<Rightarrow> False | Some l \<Rightarrow> counter + 1 \<ge> l)
               then Inr (platforms @ [platform'])
               else main_loop ops cpi_data limit incoming (platforms @ [platform'])
                      (counter + 1)))"

section \<open>An instance of the float operations for examples\<close>

text \<open>
  Exact arithmetic on the rationals. It stands for binary floating point on the examples
  below, whose values are small integers and halves, where no float operation rounds.
  Its \<open>float_of_str\<close> reads plain decimal literals only (a sign, digits, and an optional
  fraction); it does not read the other forms that \<^verbatim>\<open>float\<close> accepts (an exponent,
  a missing integer or fraction part, surrounding whitespace, \<^verbatim>\<open>inf\<close>, \<^verbatim>\<open>nan\<close>).
\<close>

definition decimal :: "string \<Rightarrow> rat option" where
  "decimal s =
     (let neg = startswith s ''-'';
          body = (if neg \<or> startswith s ''+'' then tl s else s);
          sgn = (if neg then - 1 else 1)
      in
      (case split_sep CHR ''.'' body of
         [a] \<Rightarrow> (case digits a of None \<Rightarrow> None | Some n \<Rightarrow> Some (sgn * of_nat n))
       | [a, b] \<Rightarrow>
           (case digits a of
              None \<Rightarrow> None
            | Some n \<Rightarrow>
               (case digits b of
                  None \<Rightarrow> None
                | Some m \<Rightarrow> Some (sgn * (of_nat n + of_nat m / 10 ^ length b))))
       | _ \<Rightarrow> None))"

definition exact_ops :: "rat pyfloat" where
  "exact_ops =
     \<lparr>float_of_str = decimal, float_of_int = (\<lambda>i. Some (of_int i)),
      float_is_zero = (\<lambda>x. x = 0), fadd = (+), fdiv = (/), fmul = (*)\<rparr>"

section \<open>Binary floating point\<close>

text \<open>
  The float operations of CPython: IEEE 754 binary64 with rounding to nearest, ties to
  even. A finite float is the rational number it denotes (the sign of a zero is not
  kept); the other values are the two infinities and not-a-number.
\<close>

datatype b64 = Fin rat | PInf | NInf | NaN

text \<open>The nearest integer, the even one of the two when \<open>x\<close> lies half way.\<close>

definition round_half_even :: "rat \<Rightarrow> int" where
  "round_half_even x =
     (let n = \<lfloor>x\<rfloor>; r = x - of_int n
      in if r < 1 / 2 then n
         else if 1 / 2 < r then n + 1
         else if even n then n else n + 1)"

text \<open>
  The spacing of the floats around a positive number \<open>a\<close>: the power of two \<open>u\<close> with
  \<open>2 ^ 52 * u \<le> a < 2 ^ 53 * u\<close>, and \<open>2 ^ -1074\<close> below the normal range. The search
  starts from 1 and doubles or halves; 2200 steps reach every binade of the format, and
  a number it does not reach is below the smallest spacing or rounds to an infinity.
\<close>

fun ulp_search :: "nat \<Rightarrow> rat \<Rightarrow> rat \<Rightarrow> rat" where
  "ulp_search 0 a u = u"
| "ulp_search (Suc n) a u =
     (if 2 ^ 53 * u \<le> a then ulp_search n a (2 * u)
      else if a < 2 ^ 52 * u then ulp_search n a (u / 2)
      else u)"

definition ulp :: "rat \<Rightarrow> rat" where
  "ulp a = max (ulp_search 2200 a 1) (1 / 2 ^ 1074)"

text \<open>The float nearest to a rational: an infinity from \<open>2 ^ 1024\<close> on.\<close>

definition round64 :: "rat \<Rightarrow> b64" where
  "round64 q =
     (if q = 0 then Fin 0
      else
        (let u = ulp \<bar>q\<bar>; r = of_int (round_half_even (q / u)) * u
         in if 2 ^ 1024 \<le> r then PInf
            else if r \<le> - (2 ^ 1024) then NInf
            else Fin r))"

fun b64_add :: "b64 \<Rightarrow> b64 \<Rightarrow> b64" where
  "b64_add (Fin a) (Fin b) = round64 (a + b)"
| "b64_add NaN y = NaN"
| "b64_add x NaN = NaN"
| "b64_add PInf NInf = NaN"
| "b64_add NInf PInf = NaN"
| "b64_add (Fin a) y = y"
| "b64_add x y = x"

fun b64_mul :: "b64 \<Rightarrow> b64 \<Rightarrow> b64" where
  "b64_mul (Fin a) (Fin b) = round64 (a * b)"
| "b64_mul NaN y = NaN"
| "b64_mul x NaN = NaN"
| "b64_mul (Fin a) y = (if a = 0 then NaN else if (a < 0) = (y = NInf) then PInf else NInf)"
| "b64_mul x (Fin b) = (if b = 0 then NaN else if (b < 0) = (x = NInf) then PInf else NInf)"
| "b64_mul x y = (if x = y then PInf else NInf)"

text \<open>Division by a float that is not zero.\<close>

fun b64_div :: "b64 \<Rightarrow> b64 \<Rightarrow> b64" where
  "b64_div (Fin a) (Fin b) = round64 (a / b)"
| "b64_div NaN y = NaN"
| "b64_div x NaN = NaN"
| "b64_div (Fin a) y = Fin 0"
| "b64_div x (Fin b) = (if (b < 0) = (x = NInf) then PInf else NInf)"
| "b64_div x y = NaN"

text \<open>The conversion of an integer overflows when the nearest float is an infinity. A
  string is read by \<open>decimal\<close>, so in plain decimal notation only.\<close>

definition binary64_ops :: "b64 pyfloat" where
  "binary64_ops =
     \<lparr>float_of_str = (\<lambda>s. case decimal s of None \<Rightarrow> None | Some q \<Rightarrow> Some (round64 q)),
      float_of_int =
        (\<lambda>i. case round64 (of_int i) of Fin r \<Rightarrow> Some (Fin r) | _ \<Rightarrow> None),
      float_is_zero = (\<lambda>x. x = Fin 0),
      fadd = b64_add, fdiv = b64_div, fmul = b64_mul\<rparr>"

section \<open>Objects used in the examples\<close>

text \<open>A series with entries for 2000, 2013 and 2014, one that ends before 2013, and a
  catalog record with all four fields.\<close>

definition cpi_example :: "rat cpidata" where
  "cpi_example =
     \<lparr>year_cpi = [2000 \<mapsto> 2, 2013 \<mapsto> 4, 2014 \<mapsto> 8],
      last_year = Some 2014, first_year = Some 2000\<rparr>"

definition cpi_before_2013 :: "rat cpidata" where
  "cpi_before_2013 =
     \<lparr>year_cpi = [2000 \<mapsto> 2, 2001 \<mapsto> 4], last_year = Some 2001, first_year = Some 2000\<rparr>"

text \<open>The object that the statements after the header test build from the two lines
  \<^verbatim>\<open>2013-01-01 4.0\<close> and \<^verbatim>\<open>2000-01-01 2.0\<close>, in this order: the bounds are the first
  and the last year read.\<close>

definition cpi_unordered :: "rat cpidata" where
  "cpi_unordered =
     \<lparr>year_cpi = [2013 \<mapsto> 4, 2000 \<mapsto> 2], last_year = Some 2000, first_year = Some 2013\<rparr>"

text \<open>A series of binary floats with the one entry 49.0 for 2000.\<close>

definition cpi_49 :: "b64 cpidata" where
  "cpi_49 = \<lparr>year_cpi = [2000 \<mapsto> Fin 49], last_year = Some 2000, first_year = Some 2000\<rparr>"

definition foo :: "rat platform" where
  "foo = [''name'' \<mapsto> PStr ''Foo'', ''abbreviation'' \<mapsto> PStr ''F'',
          ''release_date'' \<mapsto> PStr ''2000-01-01'', ''original_price'' \<mapsto> PFloat 50]"

section \<open>Ingestion: what load_from_file does with a line\<close>

subsection \<open>The inner loop\<close>

lemma while_not_header_Some:
  "while_not_header line = Some u \<Longrightarrow> startswith line ''DATE ''"
proof (rule while_not_header.raw_induct [where P = "\<lambda>l u. startswith l ''DATE ''"])
  show "while_not_header line = Some u \<Longrightarrow> while_not_header line = Some u" .
next
  fix f l y
  assume "(if \<not> startswith l ''DATE '' then f l else Some ()) = Some y"
     and "\<And>l y. f l = Some y \<Longrightarrow> startswith l ''DATE ''"
  then show "startswith l ''DATE ''" by (auto split: if_splits)
qed

lemma while_not_header_diverges:
  "\<not> startswith line ''DATE '' \<Longrightarrow> while_not_header line = None"
  using while_not_header_Some [of line] by (cases "while_not_header line") auto

lemma while_not_header_falls_through:
  "startswith line ''DATE '' \<Longrightarrow> while_not_header line = Some ()"
  by (subst while_not_header.simps) simp

subsection \<open>A line that starts with the header marker is read as a data line\<close>

lemma split_acc_spaces:
  "\<forall>c \<in> set ws. is_space c \<Longrightarrow> split_acc cur ws = (if cur = [] then [] else [cur])"
  by (induction ws arbitrary: cur) auto

lemma split_acc_append_spaces:
  "\<forall>c \<in> set ws. is_space c \<Longrightarrow> split_acc cur (xs @ ws) = split_acc cur xs"
  by (induction xs arbitrary: cur) (auto simp: split_acc_spaces)

lemma rstrip_decomp: "\<exists>ws. s = rstrip s @ ws \<and> (\<forall>c \<in> set ws. is_space c)"
proof -
  have "rev s = takeWhile is_space (rev s) @ dropWhile is_space (rev s)" by simp
  then have "s = rev (dropWhile is_space (rev s)) @ rev (takeWhile is_space (rev s))"
    by (metis rev_append rev_rev_ident)
  moreover have "\<forall>c \<in> set (rev (takeWhile is_space (rev s))). is_space c"
    by (auto dest: set_takeWhileD)
  ultimately show ?thesis unfolding rstrip_def by blast
qed

lemma split_ws_rstrip: "split_ws (rstrip s) = split_ws s"
proof -
  obtain ws where "s = rstrip s @ ws" and "\<forall>c \<in> set ws. is_space c"
    using rstrip_decomp by blast
  then show ?thesis
    unfolding split_ws_def using split_acc_append_spaces [of ws "[]" "rstrip s"] by simp
qed

lemma startswith_append: "startswith s p \<Longrightarrow> \<exists>r. s = p @ r"
  by (induction s p rule: startswith.induct) auto

lemma split_ws_header: "split_ws (''DATE '' @ r) = ''DATE'' # split_ws r"
  by (simp add: split_ws_def is_space_def)

lemma py_int_DATE: "py_int ''DATE'' = Inl ValueError"
  by (simp add: py_int_def strip_def rstrip_def is_space_def digits_def digit_val_def)

text \<open>The first field of a line that starts with \<^verbatim>\<open>"DATE "\<close> is \<^verbatim>\<open>"DATE"\<close>, which
  \<^verbatim>\<open>int\<close> rejects.\<close>

lemma parse_line_header:
  assumes "startswith line ''DATE ''"
  shows "parse_line ops line = Inl ValueError"
proof -
  obtain r where "line = ''DATE '' @ r" using assms startswith_append by blast
  then have "split_ws (rstrip line) = ''DATE'' # split_ws r"
    by (simp only: split_ws_rstrip split_ws_header)
  then show ?thesis
    by (simp add: parse_line_def item_def split_sep_def py_int_DATE)
qed

subsection \<open>The whole call\<close>

text \<open>So the first line decides the call: it raises on a header line and never returns
  on any other line, and the object is not changed in either case.\<close>

lemma load_loop_Cons:
  "load_loop ops (self, cy, cpis) (line # fp) =
     (if startswith line ''DATE '' then Some (Inl (ValueError, self)) else None)"
  by (simp add: while_not_header_diverges while_not_header_falls_through parse_line_header)

lemma load_from_file_Nil: "load_from_file ops self [] = Some (Inr self)"
  by (simp add: load_from_file_def)

lemma load_from_file_Cons:
  "load_from_file ops self (line # fp) =
     (if startswith line ''DATE '' then Some (Inl (ValueError, self)) else None)"
  by (simp add: load_from_file_def load_loop_Cons del: load_loop.simps)

text \<open>
  C1. Lines before the header marker are not skipped. On a file whose first line is not
  the marker, here a title line followed by the header, \<open>load_from_file\<close> never returns:
  the inner loop spins on the title line. This holds whether or not a marker follows,
  so a file without any marker does not end in an error either. On the empty file the
  call returns normally, with the object unchanged and no error.
\<close>

theorem load_from_file_spins_before_header:
  "load_from_file ops self [''Title: Consumer Price Index'', ''DATE VALUE''] = None
   \<and> load_from_file ops self [''Title: Consumer Price Index''] = None
   \<and> load_from_file ops self [] = Some (Inr self)"
  by (simp add: load_from_file_Cons load_from_file_Nil)

text \<open>
  C2. On the four lines \<^verbatim>\<open>DATE VALUE\<close>, \<^verbatim>\<open>2000-01-01 90.0\<close>, \<^verbatim>\<open>2000-06-01 110.0\<close>,
  \<^verbatim>\<open>2001-01-01 120.0\<close>, \<open>load_from_file\<close> on a new object raises \<^verbatim>\<open>ValueError\<close>:
  the header line passes the inner loop and is then parsed as a data line. The object is
  left as \<^verbatim>\<open>__init__\<close> made it, so neither \<^verbatim>\<open>year_cpi[2000]\<close> nor
  \<^verbatim>\<open>year_cpi[2001]\<close> exists.
\<close>

theorem load_from_file_example_raises:
  "load_from_file ops cpi_init
     [''DATE VALUE'', ''2000-01-01 90.0'', ''2000-06-01 110.0'', ''2001-01-01 120.0'']
   = Some (Inl (ValueError, cpi_init))"
  by (simp add: load_from_file_Cons)

text \<open>
  The statements after the inner loop do compute the yearly means: run on the three data
  lines of that example, one after the other, and followed by the statement after the
  loop, they store 100 for 2000 and 120 for 2001. Only the header test keeps
  \<open>load_from_file\<close> from reaching them.
\<close>

lemma parse_line_example_1: "parse_line exact_ops ''2000-01-01 90.0'' = Inr (2000, 90)"
  by (simp add: parse_line_def rstrip_def split_ws_def is_space_def item_def split_sep_def
      py_int_def strip_def digits_def digit_val_def exact_ops_def decimal_def)

lemma parse_line_example_2: "parse_line exact_ops ''2000-06-01 110.0'' = Inr (2000, 110)"
  by (simp add: parse_line_def rstrip_def split_ws_def is_space_def item_def split_sep_def
      py_int_def strip_def digits_def digit_val_def exact_ops_def decimal_def)

lemma parse_line_example_3: "parse_line exact_ops ''2001-01-01 120.0'' = Inr (2001, 120)"
  by (simp add: parse_line_def rstrip_def split_ws_def is_space_def item_def split_sep_def
      py_int_def strip_def digits_def digit_val_def exact_ops_def decimal_def)

lemma process_line_example_1:
  "process_line exact_ops (cpi_init, None, []) ''2000-01-01 90.0''
   = Inr (\<lparr>year_cpi = Map.empty, last_year = Some 2000, first_year = Some 2000\<rparr>,
          Some 2000, [90])"
  by (simp add: parse_line_example_1 cpi_init_def)

lemma process_line_example_2:
  "process_line exact_ops
     (\<lparr>year_cpi = Map.empty, last_year = Some 2000, first_year = Some 2000\<rparr>, Some 2000, [90])
     ''2000-06-01 110.0''
   = Inr (\<lparr>year_cpi = Map.empty, last_year = Some 2000, first_year = Some 2000\<rparr>,
          Some 2000, [90, 110])"
  by (simp add: parse_line_example_2)

lemma process_line_example_3:
  "process_line exact_ops
     (\<lparr>year_cpi = Map.empty, last_year = Some 2000, first_year = Some 2000\<rparr>,
      Some 2000, [90, 110])
     ''2001-01-01 120.0''
   = Inr (\<lparr>year_cpi = [2000 \<mapsto> 100], last_year = Some 2001, first_year = Some 2000\<rparr>,
          Some 2001, [120])"
  by (simp add: parse_line_example_3) (simp add: average_def int_to_float_def exact_ops_def)

lemma finish_last_year_example:
  "finish_last_year exact_ops
     (\<lparr>year_cpi = [2000 \<mapsto> 100], last_year = Some 2001, first_year = Some 2000\<rparr>,
      Some 2001, [120])
   = Inr \<lparr>year_cpi = [2000 \<mapsto> 100, 2001 \<mapsto> 120],
           last_year = Some 2001, first_year = Some 2000\<rparr>"
  by (simp add: average_def int_to_float_def exact_ops_def)

text \<open>
  C3. No input that holds a line lets \<open>load_from_file\<close> complete: whatever the lines
  are, grouped by year or not, the call either never returns or raises \<^verbatim>\<open>ValueError\<close>
  on the first line, and the object it was called on is unchanged. No mean is stored for
  any year of any input.
\<close>

theorem load_from_file_stores_no_year:
  "load_from_file ops self (line # fp) = None
   \<or> load_from_file ops self (line # fp) = Some (Inl (ValueError, self))"
  by (simp add: load_from_file_Cons)

text \<open>
  C5. A file with a title line, the header and a data line whose value is not a number:
  \<open>load_from_file\<close> does not fail with a parse error, it never returns, because the
  inner loop spins on the title line before the malformed line is read.
\<close>

theorem load_from_file_malformed_value_spins:
  "load_from_file ops self [''Title: Consumer Price Index'', ''DATE VALUE'', ''2000-01-01 abc'']
   = None"
  by (simp add: load_from_file_Cons)

section \<open>Queries: get_adjusted_price\<close>

text \<open>The theorems of this section hold for every \<open>CPIData\<close> object with the stated
  attributes, however it was filled.\<close>

subsection \<open>Evaluating the binary float operations\<close>

lemma ulp_search_unfold:
  "ulp_search n a u =
     (if n = 0 then u
      else if 2 ^ 53 * u \<le> a then ulp_search (n - 1) a (2 * u)
      else if a < 2 ^ 52 * u then ulp_search (n - 1) a (u / 2)
      else u)"
  by (cases n) simp_all

lemma floor_numeral_quotient:
  "\<lfloor>numeral a / numeral b :: rat\<rfloor> = numeral a div numeral b"
  using floor_divide_of_int_eq [of "numeral a" "numeral b", where ?'a = rat] by simp

text \<open>\<^verbatim>\<open>1.0 / 49.0\<close> is rounded down, and the product of the result with
  \<^verbatim>\<open>49.0\<close> is rounded to the float just below 1, which Python prints as
  \<^verbatim>\<open>0.9999999999999999\<close>.\<close>

lemma b64_div_1_49: "b64_div (Fin 1) (Fin 49) = Fin (5882252574524729 / 2 ^ 58)"
  by (simp add: round64_def ulp_def ulp_search_unfold round_half_even_def Let_def
      floor_numeral_quotient)

lemma b64_mul_49:
  "b64_mul (Fin (5882252574524729 / 2 ^ 58)) (Fin 49) = Fin (1 - 1 / 2 ^ 53)"
  by (simp add: round64_def ulp_def ulp_search_unfold round_half_even_def Let_def
      floor_numeral_quotient)

lemma adjusted_price_of_1_at_49:
  "get_adjusted_price binary64_ops cpi_49 (PFloat (Fin 1)) 2000 (Some 2000)
   = Inr (Fin (1 - 1 / 2 ^ 53))"
  by (simp add: get_adjusted_price_def cpi_49_def clamp_current_year_def clamp_year_def
      binary64_ops_def round64_def ulp_def ulp_search_unfold round_half_even_def Let_def
      floor_numeral_quotient)

subsection \<open>The same year as source and target\<close>

text \<open>
  C4, as stated, fails in two ways. For a year in range after 2013 the target year is
  replaced by 2013: with the entries 4 for 2013 and 8 for 2014, the price 1 of 2014
  comes back as \<open>1 / 8 * 4\<close>, a half. And for a year that is not clamped the result is
  the price divided and then multiplied by the entry, each operation rounded: with the
  entry \<^verbatim>\<open>49.0\<close> for 2000, the price \<^verbatim>\<open>1.0\<close> of 2000 comes back as the float just
  below 1.
\<close>

theorem adjusted_price_identity_counterexample:
  "first_year cpi_example = Some 2000 \<and> last_year cpi_example = Some 2014
   \<and> year_cpi cpi_example 2014 = Some 8
   \<and> get_adjusted_price exact_ops cpi_example (PFloat 1) 2014 (Some 2014) = Inr (1 / 2)
   \<and> get_adjusted_price exact_ops cpi_example (PFloat 1) 2014 (Some 2014) \<noteq> Inr 1
   \<and> first_year cpi_49 = Some 2000 \<and> last_year cpi_49 = Some 2000
   \<and> year_cpi cpi_49 2000 = Some (Fin 49)
   \<and> get_adjusted_price binary64_ops cpi_49 (PFloat (Fin 1)) 2000 (Some 2000)
       = Inr (Fin (1 - 1 / 2 ^ 53))
   \<and> get_adjusted_price binary64_ops cpi_49 (PFloat (Fin 1)) 2000 (Some 2000)
       \<noteq> Inr (Fin 1)"
proof -
  have clamped:
    "get_adjusted_price exact_ops cpi_example (PFloat 1) 2014 (Some 2014) = Inr (1 / 2)"
    by (simp add: get_adjusted_price_def cpi_example_def clamp_current_year_def
        clamp_year_def exact_ops_def)
  have object: "first_year cpi_example = Some 2000" "last_year cpi_example = Some 2014"
    "year_cpi cpi_example 2014 = Some 8"
    "first_year cpi_49 = Some 2000" "last_year cpi_49 = Some 2000"
    "year_cpi cpi_49 2000 = Some (Fin 49)"
    by (simp_all add: cpi_example_def cpi_49_def)
  have "Fin (1 - 1 / 2 ^ 53) \<noteq> Fin 1" by simp
  with clamped object adjusted_price_of_1_at_49 show ?thesis by simp
qed

text \<open>
  C4, amended. For a price that \<^verbatim>\<open>float\<close> accepts and a year \<open>y\<close> within
  \<open>[first_year, last_year]\<close> that is not after 2013 and whose entry \<open>c\<close> is not zero,
  \<open>get_adjusted_price(p, y, y)\<close> clamps neither year, reads the one entry \<open>c\<close> for both
  and returns \<open>float(p) / c * c\<close>, the price divided and then multiplied by the same
  number; this is the price itself whenever the two float operations cancel.
\<close>

theorem adjusted_price_same_year:
  assumes "first_year self = Some f" and "last_year self = Some l"
    and "f \<le> y" and "y \<le> l" and "y \<le> 2013"
    and "year_cpi self y = Some c" and "\<not> float_is_zero ops c"
    and "py_float ops p = Inr x"
  shows "get_adjusted_price ops self p y (Some y) = Inr (fmul ops (fdiv ops x c) c)
       \<and> (fmul ops (fdiv ops x c) c = x
            \<longrightarrow> get_adjusted_price ops self p y (Some y) = Inr x)"
  using assms by (simp add: get_adjusted_price_def clamp_current_year_def clamp_year_def)

theorem adjusted_price_same_year_witness:
  "first_year cpi_example = Some 2000 \<and> last_year cpi_example = Some 2014
   \<and> (2000::int) \<le> 2000 \<and> (2000::int) \<le> 2014 \<and> (2000::int) \<le> 2013
   \<and> year_cpi cpi_example 2000 = Some 2 \<and> \<not> float_is_zero exact_ops (2::rat)
   \<and> py_float exact_ops (PFloat 3) = Inr 3
   \<and> fmul exact_ops (fdiv exact_ops 3 2) 2 = (3::rat)
   \<and> get_adjusted_price exact_ops cpi_example (PFloat 3) 2000 (Some 2000) = Inr 3"
proof -
  have h: "first_year cpi_example = Some 2000" "last_year cpi_example = Some 2014"
    "(2000::int) \<le> 2000" "(2000::int) \<le> 2014" "(2000::int) \<le> 2013"
    "year_cpi cpi_example 2000 = Some 2" "\<not> float_is_zero exact_ops (2::rat)"
    "py_float exact_ops (PFloat 3) = Inr 3"
    by (simp_all add: cpi_example_def exact_ops_def)
  have e: "fmul exact_ops (fdiv exact_ops 3 2) 2 = (3::rat)"
    by (simp add: exact_ops_def)
  with adjusted_price_same_year [OF h] h show ?thesis by simp
qed

subsection \<open>The empty series\<close>

text \<open>
  C7, as stated, fails: there is no test for an empty series, and the failure comes
  after both years have been clamped. On a new object the call with source year 2000
  raises the \<^verbatim>\<open>KeyError\<close> of the lookup \<^verbatim>\<open>self.year_cpi[year]\<close>, and the key it
  reports is \<^verbatim>\<open>None\<close>, the value of \<^verbatim>\<open>last_year\<close> that the clamp assigned to
  \<^verbatim>\<open>year\<close>, not 2000.
\<close>

theorem empty_series_check_counterexample:
  "clamp_current_year None = 2013
   \<and> clamp_year (cpi_init :: rat cpidata) 2000 = None
   \<and> get_adjusted_price exact_ops cpi_init (PFloat 50) 2000 None = Inl (KeyError KNone)
   \<and> get_adjusted_price exact_ops cpi_init (PFloat 50) 2000 None \<noteq> Inl (KeyError (KInt 2000))"
  by (simp add: get_adjusted_price_def clamp_current_year_def clamp_year_def cpi_init_def)

text \<open>
  C7, amended. On an empty series (the object as \<^verbatim>\<open>__init__\<close> leaves it)
  \<open>get_adjusted_price\<close> fails for every price, source year and target year with a
  \<^verbatim>\<open>KeyError\<close>, which is a \<^verbatim>\<open>LookupError\<close>; the error is raised by the lookup of
  the clamped source year, which is \<^verbatim>\<open>None\<close>.
\<close>

theorem empty_series_raises_KeyError:
  "get_adjusted_price ops cpi_init p y t = Inl (KeyError KNone)
   \<and> is_LookupError (KeyError KNone)
   \<and> clamp_year cpi_init y = None"
  by (simp add: get_adjusted_price_def clamp_year_def cpi_init_def)

subsection \<open>A source year outside the bounds\<close>

text \<open>
  The bounds are the years of the first and of the last line read, whatever their order.
  The statements after the header test, run on the line \<^verbatim>\<open>2013-01-01 4.0\<close> and then
  on \<^verbatim>\<open>2000-01-01 2.0\<close>, and followed by the statement after the loop, build
  \<open>cpi_unordered\<close>, whose \<open>first_year\<close> is after its \<open>last_year\<close>.
\<close>

lemma process_line_unordered_1:
  "process_line exact_ops (cpi_init, None, []) ''2013-01-01 4.0''
   = Inr (\<lparr>year_cpi = Map.empty, last_year = Some 2013, first_year = Some 2013\<rparr>,
          Some 2013, [4])"
  by (simp add: parse_line_def rstrip_def split_ws_def is_space_def item_def split_sep_def
      py_int_def strip_def digits_def digit_val_def exact_ops_def decimal_def cpi_init_def)

lemma process_line_unordered_2:
  "process_line exact_ops
     (\<lparr>year_cpi = Map.empty, last_year = Some 2013, first_year = Some 2013\<rparr>, Some 2013, [4])
     ''2000-01-01 2.0''
   = Inr (\<lparr>year_cpi = [2013 \<mapsto> 4], last_year = Some 2000, first_year = Some 2013\<rparr>,
          Some 2000, [2])"
  by (simp add: parse_line_def rstrip_def split_ws_def is_space_def item_def split_sep_def
      py_int_def strip_def digits_def digit_val_def exact_ops_def decimal_def
      average_def int_to_float_def)

lemma finish_last_year_unordered:
  "finish_last_year exact_ops
     (\<lparr>year_cpi = [2013 \<mapsto> 4], last_year = Some 2000, first_year = Some 2013\<rparr>,
      Some 2000, [2])
   = Inr cpi_unordered"
  by (simp add: average_def int_to_float_def exact_ops_def cpi_unordered_def)

text \<open>
  C8, as stated, fails on that object: the source year 1990 is below \<open>first_year\<close> (2013)
  and is replaced by it, so the price 50 is adjusted by the entry of 2013 and comes back
  as 50; the source year 2013 itself is above \<open>last_year\<close> (2000) and is replaced by
  2000, so the same price comes back as 100.
\<close>

theorem out_of_range_year_counterexample:
  "first_year cpi_unordered = Some 2013 \<and> last_year cpi_unordered = Some 2000
   \<and> (1990::int) < 2013
   \<and> get_adjusted_price exact_ops cpi_unordered (PFloat 50) 1990 None = Inr 50
   \<and> get_adjusted_price exact_ops cpi_unordered (PFloat 50) 2013 None = Inr 100
   \<and> get_adjusted_price exact_ops cpi_unordered (PFloat 50) 1990 None
       \<noteq> get_adjusted_price exact_ops cpi_unordered (PFloat 50) 2013 None"
  by (simp add: get_adjusted_price_def cpi_unordered_def clamp_current_year_def clamp_year_def
      exact_ops_def)

text \<open>
  C8, amended. With both bounds set and \<open>first_year \<le> last_year\<close>, a source year below
  \<open>first_year\<close> gives the same result (value or exception) as \<open>first_year\<close> itself,
  and a source year above \<open>last_year\<close> the same as \<open>last_year\<close>, for every price and
  every target year.
\<close>

theorem out_of_range_year_is_boundary_year:
  assumes "first_year self = Some f" and "last_year self = Some l" and "f \<le> l"
  shows "(y < f \<longrightarrow> get_adjusted_price ops self p y t = get_adjusted_price ops self p f t)
       \<and> (l < y \<longrightarrow> get_adjusted_price ops self p y t = get_adjusted_price ops self p l t)"
  using assms by (simp add: get_adjusted_price_def clamp_year_def)

theorem out_of_range_year_is_boundary_year_witness:
  "first_year cpi_example = Some 2000 \<and> last_year cpi_example = Some 2014
   \<and> (2000::int) \<le> 2014 \<and> (1990::int) < 2000 \<and> (2014::int) < 2020
   \<and> get_adjusted_price exact_ops cpi_example (PFloat 50) 1990 None
       = get_adjusted_price exact_ops cpi_example (PFloat 50) 2000 None
   \<and> get_adjusted_price exact_ops cpi_example (PFloat 50) 2020 None
       = get_adjusted_price exact_ops cpi_example (PFloat 50) 2014 None
   \<and> get_adjusted_price exact_ops cpi_example (PFloat 50) 1990 None = Inr 100
   \<and> get_adjusted_price exact_ops cpi_example (PFloat 50) 2020 None = Inr 25"
proof -
  have h: "first_year cpi_example = Some 2000" "last_year cpi_example = Some 2014"
    "(2000::int) \<le> 2014"
    by (simp_all add: cpi_example_def)
  have v: "get_adjusted_price exact_ops cpi_example (PFloat 50) 1990 None = Inr 100"
    "get_adjusted_price exact_ops cpi_example (PFloat 50) 2020 None = Inr 25"
    by (simp_all add: get_adjusted_price_def cpi_example_def clamp_current_year_def
        clamp_year_def exact_ops_def)
  from out_of_range_year_is_boundary_year
         [where y = 1990 and ops = exact_ops and p = "PFloat 50" and t = None, OF h]
    out_of_range_year_is_boundary_year
         [where y = 2020 and ops = exact_ops and p = "PFloat 50" and t = None, OF h]
  show ?thesis using h v by simp
qed

subsection \<open>The cutoff year\<close>

text \<open>
  C10. When the series has no entry for 2013 and the target year is not given or is after
  2013, \<open>get_adjusted_price\<close> raises \<^verbatim>\<open>KeyError\<close> for every price and every source
  year; when the source year's own lookup succeeds, the key of the error is 2013.
\<close>

theorem cutoff_year_lookup_fails:
  assumes "year_cpi self 2013 = None"
    and "current_year = None \<or> (\<exists>t. current_year = Some t \<and> 2013 < t)"
  shows "(\<exists>k. get_adjusted_price ops self p y current_year = Inl (KeyError k))
       \<and> ((\<exists>c. cpi_getitem self (clamp_year self y) = Inr c)
            \<longrightarrow> get_adjusted_price ops self p y current_year = Inl (KeyError (KInt 2013)))"
proof -
  have "clamp_current_year current_year = 2013"
    using assms(2) by (auto simp: clamp_current_year_def)
  then show ?thesis using assms(1)
    by (cases "clamp_year self y") (auto simp: get_adjusted_price_def split: option.splits)
qed

theorem cutoff_year_lookup_fails_witness:
  "year_cpi cpi_before_2013 2013 = None
   \<and> cpi_getitem cpi_before_2013 (clamp_year cpi_before_2013 2000) = Inr 2
   \<and> get_adjusted_price exact_ops cpi_before_2013 (PFloat 50) 2000 None
       = Inl (KeyError (KInt 2013))
   \<and> get_adjusted_price exact_ops cpi_before_2013 (PFloat 50) 2000 (Some 2020)
       = Inl (KeyError (KInt 2013))"
proof -
  have h: "year_cpi cpi_before_2013 2013 = None"
    by (simp add: cpi_before_2013_def)
  have g: "cpi_getitem cpi_before_2013 (clamp_year cpi_before_2013 2000) = Inr 2"
    by (simp add: cpi_before_2013_def clamp_year_def)
  have n: "(None :: int option) = None \<or> (\<exists>t. (None :: int option) = Some t \<and> 2013 < t)"
    by simp
  have m: "Some (2020::int) = None \<or> (\<exists>t. Some (2020::int) = Some t \<and> 2013 < t)"
    by simp
  from cutoff_year_lookup_fails
         [where ops = exact_ops and p = "PFloat 50" and y = 2000 and current_year = None,
          OF h n]
    cutoff_year_lookup_fails
         [where ops = exact_ops and p = "PFloat 50" and y = 2000
            and current_year = "Some 2020", OF h m]
  show ?thesis using h g by simp
qed

section \<open>The record filter\<close>

text \<open>A record that has a \<^verbatim>\<open>name\<close> key never makes the filter raise.\<close>

lemma is_valid_dataset_named:
  "platform ''name'' = Some n \<Longrightarrow> \<exists>b w. is_valid_dataset ops platform = Inr (b, w)"
  by (auto simp: is_valid_dataset_def warn_named_def getitem_def)

text \<open>
  C6. \<open>is_valid_dataset\<close> raises on a record that lacks both a required field and the
  name: the warning for the missing field is formatted with \<^verbatim>\<open>platform['name']\<close>.
  The empty record raises \<^verbatim>\<open>KeyError('name')\<close>, and so does a record that has a
  release date and an abbreviation but neither an original price nor a name.
\<close>

theorem is_valid_dataset_raises_without_name:
  "is_valid_dataset ops Map.empty = Inl (KeyError (KStr ''name''))
   \<and> is_valid_dataset ops
        [''release_date'' \<mapsto> PStr ''2000-01-01'', ''abbreviation'' \<mapsto> PStr ''F'']
      = Inl (KeyError (KStr ''name''))"
  by (simp add: is_valid_dataset_def lacks_def warn_named_def getitem_def)

section \<open>The loop of main and the limit\<close>

lemma is_valid_dataset_foo: "is_valid_dataset exact_ops foo = Inr (True, [])"
  by (simp add: is_valid_dataset_def lacks_def foo_def exact_ops_def)

lemma release_year_foo: "release_year foo = Inr 2000"
  by (simp add: release_year_def getitem_def foo_def split_sep_def item_def py_int_def
      strip_def rstrip_def is_space_def digits_def digit_val_def)

lemma adjust_platform_foo:
  "adjust_platform exact_ops cpi_example foo
   = Inr (foo(''year'' \<mapsto> PInt 2000, ''original_price'' \<mapsto> PFloat 50,
              ''adjusted_price'' \<mapsto> PFloat 100))"
  by (simp add: adjust_platform_def release_year_foo)
     (simp add: getitem_def foo_def get_adjusted_price_def clamp_current_year_def
      clamp_year_def cpi_example_def exact_ops_def)

text \<open>With a limit of at least 1 the loop appends at most that many records.\<close>

lemma main_loop_bound:
  "main_loop ops cpi_data (Some l) incoming platforms counter = Inr out \<Longrightarrow> counter < l \<Longrightarrow>
   int (length out) - int (length platforms) \<le> l - counter"
proof (induction incoming arbitrary: platforms counter)
  case Nil
  then show ?case by simp
next
  case (Cons a incoming)
  then show ?case
    by (auto split: sum.splits if_splits prod.splits) fastforce+
qed

text \<open>
  C9. With the limit 0 the loop appends one record: the limit is tested after the
  append, where \<open>counter + 1 \<ge> 0\<close> holds at once. Here the one valid record of the
  input ends up in the list, with its adjusted price.
\<close>

theorem main_loop_limit_zero_appends_one:
  "main_loop exact_ops cpi_example (Some 0) [foo] [] 0
   = Inr [foo(''year'' \<mapsto> PInt 2000, ''original_price'' \<mapsto> PFloat 50,
              ''adjusted_price'' \<mapsto> PFloat 100)]"
  by (simp add: is_valid_dataset_foo adjust_platform_foo)

end
